theory Spec2Isabelle
  imports Main "HOL-Library.Word"
begin

unbundle bit_operations_syntax

section \<open>The SDK interface used by low_power_led.c\<close>

text \<open>
  The application is one C file written against the WICED Bluetooth SDK. Its
  globals become one record that every entry point takes and returns; each call
  into the SDK is appended to a log, in the order in which the C code makes it.
\<close>

type_synonym uint8_t = "8 word"
type_synonym uint16_t = "16 word"
type_synonym uint32_t = "32 word"

text \<open>
  \<open>wiced_result_t\<close>: the code only ever compares a result with the success code
  (\<open>WICED_SUCCESS\<close>, \<open>WICED_BT_SUCCESS\<close>), so every other code is one value here.
\<close>

datatype wiced_result_t = WICED_SUCCESS | WICED_ERROR

text \<open>
  \<open>wiced_sleep_poll_type_t\<close> is a C enum with two enumerators. A C enum object
  can hold any other integer as well; the third constructor stands for those.
\<close>

datatype wiced_sleep_poll_type_t =
    WICED_SLEEP_POLL_TIME_TO_SLEEP
  | WICED_SLEEP_POLL_SLEEP_PERMISSION
  | WICED_SLEEP_POLL_OTHER uint32_t

text \<open>
  What is fixed when the file is compiled: the preprocessor symbols that select
  its branches, and the constants of the SDK headers, which are not part of the
  repository. The constants are parameters; nothing is assumed about their
  values unless a theorem says so. A symbol is set when the build defines it
  (with a non-zero value, where the code tests the value).
\<close>

record platform =
  LOW_POWER_NODE :: bool
  CYW20835B1 :: bool
  CYW20819A1 :: bool
  CYW20820A1 :: bool
  NETWORK_FILTER_SERVER_SUPPORTED :: bool
  WICED_SLEEP_NOT_ALLOWED :: uint32_t
  WICED_SLEEP_MAX_TIME_TO_SLEEP :: uint32_t
  WICED_SLEEP_ALLOWED_WITHOUT_SHUTDOWN :: uint32_t
  WICED_SLEEP_ALLOWED_WITH_SHUTDOWN :: uint32_t
  WICED_SLEEP_MODE_NO_TRANSPORT :: uint32_t
  WICED_GPIO_BUTTON_WAKE_MODE :: uint32_t
  WICED_SLEEP_WAKE_SOURCE_GPIO :: uint32_t
  WICED_GPIO_PIN_BUTTON :: uint32_t
  WICED_SLEEP_WAKE_ACTIVE_HIGH :: uint32_t
  APPEARANCE_GENERIC_TAG :: uint16_t
  WICED_BT_MESH_ONOFF_STATUS :: uint16_t
  WICED_SDK_MAJOR_VER :: nat
  WICED_SDK_MINOR_VER :: nat
  WICED_SDK_REV_NUMBER :: nat
  WICED_SDK_BUILD_NUMBER :: nat
  wiced_bt_mesh_base64_encode_6bits :: "uint8_t \<Rightarrow> uint8_t"

text \<open>Callbacks the application hands to the SDK (function pointers in C).\<close>

datatype callback = Mesh_low_power_led_sleep_poll | Wakeup_timer_cb
  | Mesh_low_power_led_message_handler

record wiced_sleep_config_t =
  sleep_mode :: uint32_t
  device_wake_mode :: uint32_t
  device_wake_source :: uint32_t
  device_wake_gpio_num :: uint32_t
  host_wake_mode :: uint32_t
  sleep_permit_handler :: "callback option"
  post_sleep_cback_handler :: "callback option"

text \<open>
  Modelled from the spec: the SDK timer behind \<open>wiced_timer_t\<close>, whose code is
  not in the repository. The spec's WakeTimer is
  \<open>{ armed: bool, remaining_duration }\<close>, a single countdown that is started,
  stopped and rearmed.
\<close>

record wiced_timer_t =
  armed :: bool
  remaining_duration :: uint32_t

datatype timer_type = WICED_MILLI_SECONDS_TIMER

datatype led_control_type = LED_CONTROL_TYPE_ONOFF

datatype advert_type = BTM_BLE_ADVERT_TYPE_NAME_COMPLETE | BTM_BLE_ADVERT_TYPE_APPEARANCE

record wiced_bt_ble_advert_elem_t =
  advert_type :: advert_type
  len :: uint16_t
  p_data :: "uint8_t list"

text \<open>The calls into the SDK, with the arguments the application passes.\<close>

datatype platform_call =
    Call_WICED_BT_TRACE string "uint32_t list"
  | Call_wiced_stop_timer
  | Call_wiced_start_timer uint32_t
  | Call_wiced_init_timer callback uint32_t timer_type
  | Call_wiced_sleep_configure wiced_sleep_config_t
  | Call_wiced_sleep_enter_hid_off uint32_t uint32_t uint32_t
  | Call_led_control_init led_control_type
  | Call_led_control_set_onoff uint8_t
  | Call_wiced_bt_mesh_set_raw_scan_response_data uint8_t "wiced_bt_ble_advert_elem_t list"
  | Call_wiced_bt_mesh_network_filter_init
  | Call_wiced_bt_mesh_model_power_onoff_server_init uint8_t callback uint32_t bool

section \<open>The globals of the file\<close>

definition MESH_LPN_STATE_NOT_IDLE :: uint8_t where "MESH_LPN_STATE_NOT_IDLE = 0"
definition MESH_LPN_STATE_IDLE :: uint8_t where "MESH_LPN_STATE_IDLE = 1"
definition MESH_LOW_POWER_LED_ELEMENT_INDEX :: uint8_t where
  "MESH_LOW_POWER_LED_ELEMENT_INDEX = 0"
definition TRANSITION_INTERVAL :: uint32_t where "TRANSITION_INTERVAL = 100"

record mesh_low_power_led_t =
  present_onoff :: uint8_t
  target_onoff :: uint8_t
  lpn_sleep_config :: wiced_sleep_config_t
  lpn_wake_timer :: wiced_timer_t
  lpn_state :: uint8_t

text \<open>
  \<open>app_state\<close>, \<open>do_not_init_again\<close> and \<open>mesh_prop_fw_version\<close> are the
  globals of the file that its functions write; \<open>device_name\<close> and \<open>appearance\<close>
  are the two fields of the external \<open>wiced_bt_cfg_settings\<close> that
  \<open>mesh_app_init\<close> sets. \<open>calls\<close> is the log of SDK calls.
\<close>

record device =
  app_state :: mesh_low_power_led_t
  do_not_init_again :: bool
  mesh_prop_fw_version :: "uint8_t list"
  device_name :: string
  appearance :: uint16_t
  calls :: "platform_call list"

definition zero_sleep_config :: wiced_sleep_config_t where
  "zero_sleep_config = \<lparr> sleep_mode = 0, device_wake_mode = 0, device_wake_source = 0,
     device_wake_gpio_num = 0, host_wake_mode = 0, sleep_permit_handler = None,
     post_sleep_cback_handler = None \<rparr>"

text \<open>
  The globals as their initialisers leave them: \<open>app_state = { 0 }\<close>,
  \<open>do_not_init_again = WICED_FALSE\<close>, the firmware revision \<open>06.02.05\<close>. The two
  external settings start empty here; \<open>mesh_app_init\<close> overwrites both.
\<close>

definition power_on :: device where
  "power_on = \<lparr> app_state = \<lparr> present_onoff = 0, target_onoff = 0,
        lpn_sleep_config = zero_sleep_config,
        lpn_wake_timer = \<lparr> armed = False, remaining_duration = 0 \<rparr>,
        lpn_state = 0 \<rparr>,
     do_not_init_again = False,
     mesh_prop_fw_version = map (of_nat \<circ> of_char) ''06.02.05'',
     device_name = [], appearance = 0, calls = [] \<rparr>"

section \<open>SDK calls as state transformers\<close>

definition call :: "platform_call \<Rightarrow> device \<Rightarrow> device" where
  "call c s = s\<lparr>calls := calls s @ [c]\<rparr>"

definition WICED_BT_TRACE :: "string \<Rightarrow> uint32_t list \<Rightarrow> device \<Rightarrow> device" where
  "WICED_BT_TRACE fmt args s = call (Call_WICED_BT_TRACE fmt args) s"

definition on_wake_timer :: "(wiced_timer_t \<Rightarrow> wiced_timer_t) \<Rightarrow> device \<Rightarrow> device" where
  "on_wake_timer f s = s\<lparr>app_state := (app_state s)\<lparr>lpn_wake_timer := f (lpn_wake_timer (app_state s))\<rparr>\<rparr>"

text \<open>
  Modelled from the spec: the three timer calls of the SDK. Stopping disarms the
  countdown, starting arms it with the given duration, and a timer that has just
  been created is not armed.
\<close>

definition wiced_stop_timer :: "device \<Rightarrow> device" where
  "wiced_stop_timer s = call Call_wiced_stop_timer (on_wake_timer (\<lambda>t. t\<lparr>armed := False\<rparr>) s)"

definition wiced_start_timer :: "uint32_t \<Rightarrow> device \<Rightarrow> device" where
  "wiced_start_timer d s =
     call (Call_wiced_start_timer d)
       (on_wake_timer (\<lambda>t. t\<lparr>armed := True, remaining_duration := d\<rparr>) s)"

definition wiced_init_timer :: "callback \<Rightarrow> uint32_t \<Rightarrow> timer_type \<Rightarrow> device \<Rightarrow> device" where
  "wiced_init_timer cb arg ty s =
     call (Call_wiced_init_timer cb arg ty) (on_wake_timer (\<lambda>t. t\<lparr>armed := False\<rparr>) s)"

definition set_lpn_state :: "uint8_t \<Rightarrow> device \<Rightarrow> device" where
  "set_lpn_state v s = s\<lparr>app_state := (app_state s)\<lparr>lpn_state := v\<rparr>\<rparr>"

section \<open>The sleep functions\<close>

text \<open>
  \<open>mesh_low_power_led_lpn_sleep(max_sleep_duration)\<close>. The result of
  \<open>wiced_sleep_enter_hid_off\<close> is decided by the platform and is an input here.
  The comparison with 120000 is on \<open>uint32_t\<close>, hence unsigned. On the hardware
  an accepted HID-off request powers the chip down; the model records the request
  and returns, as the C function would if the call came back.
\<close>

definition mesh_low_power_led_lpn_sleep ::
    "platform \<Rightarrow> wiced_result_t \<Rightarrow> uint32_t \<Rightarrow> device \<Rightarrow> device" where
  "mesh_low_power_led_lpn_sleep p hid_off_result max_sleep_duration s =
     (if CYW20835B1 p then
        (let s1 = (if max_sleep_duration \<noteq> WICED_SLEEP_MAX_TIME_TO_SLEEP p
                   then wiced_start_timer max_sleep_duration (wiced_stop_timer s)
                   else s);
             s2 = WICED_BT_TRACE (''Get ready to go into SDS, duration=%d\<newline>'' @ [CHR 0x0D])
                    [max_sleep_duration] s1
         in set_lpn_state MESH_LPN_STATE_IDLE s2)
      else if max_sleep_duration < 120000 then
        (let s1 = wiced_stop_timer s;
             s2 = wiced_start_timer max_sleep_duration s1;
             s3 = WICED_BT_TRACE
                    (''Get ready to go into ePDS sleep, duration=%d\<newline>'' @ [CHR 0x0D])
                    [max_sleep_duration] s2
         in set_lpn_state MESH_LPN_STATE_IDLE s3)
      else
        (let s1 = WICED_BT_TRACE
                    (''Entering HID-OFF for max_sleep_duration: %d'' @ [CHR 0x0D, CHR ''\<newline>''])
                    [max_sleep_duration] s;
             s2 = call (Call_wiced_sleep_enter_hid_off max_sleep_duration
                          (WICED_GPIO_PIN_BUTTON p) 1) s1
         in if WICED_SUCCESS \<noteq> hid_off_result
            then WICED_BT_TRACE (''Entering HID-Off failed\<newline>'' @ [CHR 0x0D]) [] s2
            else s2))"

text \<open>\<open>wakeup_timer_cb\<close>, the callback of the wake timer; its argument is not used.\<close>

definition wakeup_timer_cb :: "device \<Rightarrow> device" where
  "wakeup_timer_cb s =
     (let s1 = WICED_BT_TRACE ''ePDS wake up!!!\<newline>'' [] s;
          s2 = set_lpn_state MESH_LPN_STATE_NOT_IDLE s1
      in wiced_stop_timer s2)"

text \<open>
  \<open>mesh_low_power_led_sleep_poll(type)\<close>: \<open>ret\<close> starts as
  \<open>WICED_SLEEP_NOT_ALLOWED\<close>; the \<open>switch\<close> has the two cases and no default.
\<close>

definition mesh_low_power_led_sleep_poll ::
    "platform \<Rightarrow> wiced_sleep_poll_type_t \<Rightarrow> device \<Rightarrow> uint32_t \<times> device" where
  "mesh_low_power_led_sleep_poll p type s =
     (let ret = WICED_SLEEP_NOT_ALLOWED p in
      case type of
        WICED_SLEEP_POLL_TIME_TO_SLEEP \<Rightarrow>
          (if lpn_state (app_state s) = MESH_LPN_STATE_NOT_IDLE
           then (WICED_SLEEP_NOT_ALLOWED p, WICED_BT_TRACE ''!'' [] s)
           else (WICED_SLEEP_MAX_TIME_TO_SLEEP p, WICED_BT_TRACE ''@\<newline>'' [] s))
      | WICED_SLEEP_POLL_SLEEP_PERMISSION \<Rightarrow>
          (if lpn_state (app_state s) = MESH_LPN_STATE_IDLE
           then ((if CYW20835B1 p then WICED_SLEEP_ALLOWED_WITH_SHUTDOWN p
                  else WICED_SLEEP_ALLOWED_WITHOUT_SHUTDOWN p),
                 WICED_BT_TRACE ''#\<newline>'' [] s)
           else (ret, s))
      | WICED_SLEEP_POLL_OTHER _ \<Rightarrow> (ret, s))"

section \<open>Initialisation\<close>

text \<open>
  What \<open>mesh_app_init\<close> reads from the platform: the two reset-reason queries,
  the interrupt status of the button pin, and the result of
  \<open>wiced_sleep_configure\<close>.
\<close>

record init_env =
  reset_reason_por :: bool
  reset_reason_hid_timeout :: bool
  pin_interrupt_status :: uint32_t
  sleep_configure_result :: wiced_result_t

definition trace_start_reason :: "platform \<Rightarrow> init_env \<Rightarrow> device \<Rightarrow> device" where
  "trace_start_reason p e s =
     (if reset_reason_por e then WICED_BT_TRACE ''start reason: reset\<newline>'' [] s
      else if CYW20819A1 p \<and> reset_reason_hid_timeout e
      then WICED_BT_TRACE ''Wake from HID off: timed wake\<newline>'' [] s
      else WICED_BT_TRACE ''Wake from HID off, interrupt:%d\<newline>'' [pin_interrupt_status e] s)"

definition bytes_of_string :: "string \<Rightarrow> uint8_t list" where
  "bytes_of_string cs = map (\<lambda>c. of_nat (of_char c)) cs"

definition set_scan_response :: "device \<Rightarrow> device" where
  "set_scan_response s =
     (let e0 = \<lparr> advert_type = BTM_BLE_ADVERT_TYPE_NAME_COMPLETE,
                 len = of_nat (length (device_name s)),
                 p_data = bytes_of_string (device_name s) \<rparr>;
          buf = [ucast (appearance s), ucast (drop_bit 8 (appearance s))];
          e1 = \<lparr> advert_type = BTM_BLE_ADVERT_TYPE_APPEARANCE, len = 2, p_data = buf \<rparr>
      in call (Call_wiced_bt_mesh_set_raw_scan_response_data 2 [e0, e1]) s)"

definition set_fw_version :: "platform \<Rightarrow> device \<Rightarrow> device" where
  "set_fw_version p s =
     s\<lparr>mesh_prop_fw_version := (mesh_prop_fw_version s)
        [0 := of_nat (0x30 + WICED_SDK_MAJOR_VER p div 10),
         1 := of_nat (0x30 + WICED_SDK_MAJOR_VER p mod 10),
         2 := of_nat (0x30 + WICED_SDK_MINOR_VER p div 10),
         3 := of_nat (0x30 + WICED_SDK_MINOR_VER p mod 10),
         4 := of_nat (0x30 + WICED_SDK_REV_NUMBER p div 10),
         5 := of_nat (0x30 + WICED_SDK_REV_NUMBER p mod 10),
         6 := wiced_bt_mesh_base64_encode_6bits p
                (of_nat (WICED_SDK_BUILD_NUMBER p div 2 ^ 6) AND 0x3f),
         7 := wiced_bt_mesh_base64_encode_6bits p
                (of_nat (WICED_SDK_BUILD_NUMBER p) AND 0x3f)]\<rparr>"

text \<open>
  The block of \<open>mesh_app_init\<close> under \<open>if (!do_not_init_again)\<close>, compiled only
  when \<open>LOW_POWER_NODE == 1\<close>: it fills \<open>app_state.lpn_sleep_config\<close>, registers
  it, creates the wake timer and sets the latch.
\<close>

definition lpn_init_once :: "platform \<Rightarrow> init_env \<Rightarrow> device \<Rightarrow> device" where
  "lpn_init_once p e s =
     (let s1 = WICED_BT_TRACE ''Init once \<newline>'' [] s;
          cfg = (lpn_sleep_config (app_state s1))
                  \<lparr> sleep_mode := WICED_SLEEP_MODE_NO_TRANSPORT p,
                    device_wake_mode := WICED_GPIO_BUTTON_WAKE_MODE p,
                    device_wake_source := WICED_SLEEP_WAKE_SOURCE_GPIO p,
                    device_wake_gpio_num := WICED_GPIO_PIN_BUTTON p,
                    host_wake_mode := WICED_SLEEP_WAKE_ACTIVE_HIGH p,
                    sleep_permit_handler := Some Mesh_low_power_led_sleep_poll \<rparr>;
          cfg' = (if CYW20819A1 p \<or> CYW20820A1 p
                  then cfg\<lparr>post_sleep_cback_handler := None\<rparr> else cfg);
          s2 = s1\<lparr>app_state := (app_state s1)\<lparr>lpn_sleep_config := cfg'\<rparr>\<rparr>;
          s3 = call (Call_wiced_sleep_configure cfg') s2;
          s4 = (if WICED_SUCCESS \<noteq> sleep_configure_result e
                then WICED_BT_TRACE (''Sleep Configure failed'' @ [CHR 0x0D, CHR ''\<newline>'']) [] s3
                else s3);
          s5 = wiced_init_timer Wakeup_timer_cb 0 WICED_MILLI_SECONDS_TIMER s4
      in s5\<lparr>do_not_init_again := True\<rparr>)"

definition mesh_app_init :: "platform \<Rightarrow> init_env \<Rightarrow> bool \<Rightarrow> device \<Rightarrow> device" where
  "mesh_app_init p e is_provisioned s =
     (let s1 = trace_start_reason p e s;
          s2 = s1\<lparr>device_name := (if LOW_POWER_NODE p then ''Low Power LED'' else ''On/Off LED''),
                  appearance := APPEARANCE_GENERIC_TAG p\<rparr>;
          s3 = (if \<not> is_provisioned then set_scan_response s2 else s2);
          s4 = set_fw_version p s3;
          s5 = call (Call_led_control_init LED_CONTROL_TYPE_ONOFF) s4;
          s6 = (if NETWORK_FILTER_SERVER_SUPPORTED p \<and> is_provisioned
                then call Call_wiced_bt_mesh_network_filter_init s5 else s5);
          s7 = call (Call_wiced_bt_mesh_model_power_onoff_server_init
                       MESH_LOW_POWER_LED_ELEMENT_INDEX Mesh_low_power_led_message_handler
                       TRANSITION_INTERVAL is_provisioned) s6
      in if LOW_POWER_NODE p \<and> \<not> do_not_init_again s7 then lpn_init_once p e s7 else s7)"

section \<open>On/off status from the models library\<close>

record wiced_bt_mesh_onoff_status_data_t =
  status_present_onoff :: uint8_t
  status_target_onoff :: uint8_t
  status_remaining_time :: uint32_t

definition mesh_low_power_led_process_status ::
    "uint8_t \<Rightarrow> wiced_bt_mesh_onoff_status_data_t \<Rightarrow> device \<Rightarrow> device" where
  "mesh_low_power_led_process_status element_idx p_status s =
     call (Call_led_control_set_onoff (status_present_onoff p_status)) s"

definition mesh_low_power_led_message_handler ::
    "platform \<Rightarrow> uint8_t \<Rightarrow> uint16_t \<Rightarrow> wiced_bt_mesh_onoff_status_data_t \<Rightarrow> device \<Rightarrow> device" where
  "mesh_low_power_led_message_handler p element_idx event status s =
     (if event = WICED_BT_MESH_ONOFF_STATUS p
      then mesh_low_power_led_process_status element_idx status s
      else WICED_BT_TRACE ''unknown\<newline>'' [] s)"

section \<open>Runs of the device\<close>

text \<open>
  The entry points are called by the mesh engine, the power manager and the
  timer on one thread, one after the other. A run is a list of such calls.
\<close>

datatype entry =
    Mesh_app_init init_env bool
  | Lpn_sleep wiced_result_t uint32_t
  | Timer_expiry
  | Sleep_poll wiced_sleep_poll_type_t
  | Message uint8_t uint16_t wiced_bt_mesh_onoff_status_data_t

fun step :: "platform \<Rightarrow> device \<Rightarrow> entry \<Rightarrow> device" where
  "step p s (Mesh_app_init e is_provisioned) = mesh_app_init p e is_provisioned s"
| "step p s (Lpn_sleep r d) = mesh_low_power_led_lpn_sleep p r d s"
| "step p s Timer_expiry = wakeup_timer_cb s"
| "step p s (Sleep_poll ty) = snd (mesh_low_power_led_sleep_poll p ty s)"
| "step p s (Message i ev st) = mesh_low_power_led_message_handler p i ev st s"

definition run :: "platform \<Rightarrow> device \<Rightarrow> entry list \<Rightarrow> device" where
  "run p s es = foldl (step p) s es"

section \<open>Reading the call log\<close>

text \<open>The calls that one entry point added to the log: those after the old log.\<close>

definition calls_since :: "device \<Rightarrow> device \<Rightarrow> platform_call list" where
  "calls_since s s' = drop (length (calls s)) (calls s')"

fun is_trace :: "platform_call \<Rightarrow> bool" where
  "is_trace (Call_WICED_BT_TRACE _ _) = True"
| "is_trace _ = False"

fun is_timer_creation :: "platform_call \<Rightarrow> bool" where
  "is_timer_creation (Call_wiced_init_timer _ _ _) = True"
| "is_timer_creation _ = False"

fun is_sleep_registration :: "platform_call \<Rightarrow> bool" where
  "is_sleep_registration (Call_wiced_sleep_configure _) = True"
| "is_sleep_registration _ = False"

definition timer_creations :: "device \<Rightarrow> nat" where
  "timer_creations s = length (filter is_timer_creation (calls s))"

definition sleep_registrations :: "device \<Rightarrow> nat" where
  "sleep_registrations s = length (filter is_sleep_registration (calls s))"

text \<open>What the latch guards, read off a device: the two counts and the latch.\<close>

definition latch_view :: "device \<Rightarrow> nat \<times> nat \<times> bool" where
  "latch_view s = (timer_creations s, sleep_registrations s, do_not_init_again s)"

fun is_init :: "entry \<Rightarrow> bool" where
  "is_init (Mesh_app_init _ _) = True"
| "is_init _ = False"

section \<open>A concrete build\<close>

text \<open>
  One build on which the theorems below are instantiated: a low power node on a
  CYW20819A1, hence the branch of \<open>mesh_low_power_led_lpn_sleep\<close> with the two
  minute threshold. The numbers stand for the constants of the SDK headers; the
  theorems hold for every choice of them, under the hypotheses they state.
\<close>

definition base64_char :: "uint8_t \<Rightarrow> uint8_t" where
  "base64_char b =
     (if b < 26 then 0x41 + b else if b < 52 then 0x61 + (b - 26)
      else if b < 62 then 0x30 + (b - 52) else if b = 62 then 0x2B else 0x2F)"

definition cyw20819_lpn :: platform where
  "cyw20819_lpn = \<lparr> LOW_POWER_NODE = True, CYW20835B1 = False, CYW20819A1 = True,
     CYW20820A1 = False, NETWORK_FILTER_SERVER_SUPPORTED = False,
     WICED_SLEEP_NOT_ALLOWED = 0, WICED_SLEEP_MAX_TIME_TO_SLEEP = 0xFFFFFFFF,
     WICED_SLEEP_ALLOWED_WITHOUT_SHUTDOWN = 1, WICED_SLEEP_ALLOWED_WITH_SHUTDOWN = 2,
     WICED_SLEEP_MODE_NO_TRANSPORT = 0, WICED_GPIO_BUTTON_WAKE_MODE = 1,
     WICED_SLEEP_WAKE_SOURCE_GPIO = 2, WICED_GPIO_PIN_BUTTON = 0,
     WICED_SLEEP_WAKE_ACTIVE_HIGH = 1, APPEARANCE_GENERIC_TAG = 512,
     WICED_BT_MESH_ONOFF_STATUS = 8,
     WICED_SDK_MAJOR_VER = 6, WICED_SDK_MINOR_VER = 2, WICED_SDK_REV_NUMBER = 5,
     WICED_SDK_BUILD_NUMBER = 0, wiced_bt_mesh_base64_encode_6bits = base64_char \<rparr>"

text \<open>The same node built for a CYW20835B1, the branch without the threshold.\<close>

definition cyw20835_lpn :: platform where
  "cyw20835_lpn = cyw20819_lpn\<lparr>CYW20835B1 := True, CYW20819A1 := False\<rparr>"

definition power_cycle :: init_env where
  "power_cycle = \<lparr> reset_reason_por = True, reset_reason_hid_timeout = False,
     pin_interrupt_status = 0, sleep_configure_result = WICED_SUCCESS \<rparr>"

section \<open>Helper lemmas\<close>

lemmas sdk_defs = call_def WICED_BT_TRACE_def on_wake_timer_def wiced_stop_timer_def
  wiced_start_timer_def wiced_init_timer_def set_lpn_state_def

lemmas lpn_state_defs = MESH_LPN_STATE_IDLE_def MESH_LPN_STATE_NOT_IDLE_def

text \<open>The two branches of the build without \<open>CYW20835B1\<close>, as equations on the device.\<close>

lemma lpn_sleep_epds:
  "\<not> CYW20835B1 p \<Longrightarrow> d < 120000 \<Longrightarrow>
   mesh_low_power_led_lpn_sleep p r d s =
     s\<lparr>app_state := (app_state s)
          \<lparr>lpn_wake_timer := (lpn_wake_timer (app_state s))\<lparr>armed := True, remaining_duration := d\<rparr>,
           lpn_state := MESH_LPN_STATE_IDLE\<rparr>,
       calls := calls s @ [Call_wiced_stop_timer, Call_wiced_start_timer d,
          Call_WICED_BT_TRACE
            (''Get ready to go into ePDS sleep, duration=%d\<newline>'' @ [CHR 0x0D]) [d]]\<rparr>"
  by (simp add: mesh_low_power_led_lpn_sleep_def Let_def sdk_defs)

lemma lpn_sleep_hid_off:
  "\<not> CYW20835B1 p \<Longrightarrow> 120000 \<le> d \<Longrightarrow>
   mesh_low_power_led_lpn_sleep p r d s =
     s\<lparr>calls := calls s @
          [Call_WICED_BT_TRACE
             (''Entering HID-OFF for max_sleep_duration: %d'' @ [CHR 0x0D, CHR ''\<newline>'']) [d],
           Call_wiced_sleep_enter_hid_off d (WICED_GPIO_PIN_BUTTON p) 1] @
          (if r = WICED_SUCCESS then []
           else [Call_WICED_BT_TRACE (''Entering HID-Off failed\<newline>'' @ [CHR 0x0D]) []])\<rparr>"
  by (simp add: mesh_low_power_led_lpn_sleep_def Let_def sdk_defs not_less [symmetric])

lemma cyw20819_lpn_flags:
  "LOW_POWER_NODE cyw20819_lpn" "\<not> CYW20835B1 cyw20819_lpn"
  by (simp_all add: cyw20819_lpn_def)

lemma cyw20835_lpn_flags:
  "CYW20835B1 cyw20835_lpn" "WICED_SLEEP_MAX_TIME_TO_SLEEP cyw20835_lpn = 0xFFFFFFFF"
  by (simp_all add: cyw20835_lpn_def cyw20819_lpn_def)

text \<open>The branch of the \<open>CYW20835B1\<close> build, with and without the sentinel duration.\<close>

lemma lpn_sleep_sds_arm:
  "CYW20835B1 p \<Longrightarrow> d \<noteq> WICED_SLEEP_MAX_TIME_TO_SLEEP p \<Longrightarrow>
   mesh_low_power_led_lpn_sleep p r d s =
     s\<lparr>app_state := (app_state s)
          \<lparr>lpn_wake_timer := (lpn_wake_timer (app_state s))\<lparr>armed := True, remaining_duration := d\<rparr>,
           lpn_state := MESH_LPN_STATE_IDLE\<rparr>,
       calls := calls s @ [Call_wiced_stop_timer, Call_wiced_start_timer d,
          Call_WICED_BT_TRACE
            (''Get ready to go into SDS, duration=%d\<newline>'' @ [CHR 0x0D]) [d]]\<rparr>"
  by (simp add: mesh_low_power_led_lpn_sleep_def Let_def sdk_defs)

lemma lpn_sleep_sds_no_arm:
  "CYW20835B1 p \<Longrightarrow> d = WICED_SLEEP_MAX_TIME_TO_SLEEP p \<Longrightarrow>
   mesh_low_power_led_lpn_sleep p r d s =
     s\<lparr>app_state := (app_state s)\<lparr>lpn_state := MESH_LPN_STATE_IDLE\<rparr>,
       calls := calls s @ [Call_WICED_BT_TRACE
            (''Get ready to go into SDS, duration=%d\<newline>'' @ [CHR 0x0D]) [d]]\<rparr>"
  by (simp add: mesh_low_power_led_lpn_sleep_def Let_def sdk_defs)

text \<open>Whatever the build and the duration: a call that starts the timer has stopped it first.\<close>

lemma lpn_sleep_start_after_stop:
  assumes "Call_wiced_start_timer d' \<in> set (calls_since s (mesh_low_power_led_lpn_sleep p r d s))"
  shows "take 2 (calls_since s (mesh_low_power_led_lpn_sleep p r d s))
     = [Call_wiced_stop_timer, Call_wiced_start_timer d]"
proof (cases "CYW20835B1 p")
  case True
  with assms show ?thesis
    by (cases "d = WICED_SLEEP_MAX_TIME_TO_SLEEP p")
       (simp_all add: lpn_sleep_sds_arm lpn_sleep_sds_no_arm calls_since_def)
next
  case False
  with assms show ?thesis
    by (cases "d < 120000")
       (simp_all add: lpn_sleep_epds lpn_sleep_hid_off calls_since_def not_less
          split: if_splits)
qed

text \<open>What each building block does to the call log and to the latch.\<close>

lemma call_view [simp]:
  "calls (call c s) = calls s @ [c]"
  "do_not_init_again (call c s) = do_not_init_again s"
  "app_state (call c s) = app_state s"
  by (simp_all add: call_def)

lemma trace_view [simp]:
  "calls (WICED_BT_TRACE fmt args s) = calls s @ [Call_WICED_BT_TRACE fmt args]"
  "do_not_init_again (WICED_BT_TRACE fmt args s) = do_not_init_again s"
  "app_state (WICED_BT_TRACE fmt args s) = app_state s"
  by (simp_all add: WICED_BT_TRACE_def)

lemma on_wake_timer_view [simp]:
  "calls (on_wake_timer f s) = calls s"
  "do_not_init_again (on_wake_timer f s) = do_not_init_again s"
  by (simp_all add: on_wake_timer_def)

lemma set_lpn_state_view [simp]:
  "calls (set_lpn_state v s) = calls s"
  "do_not_init_again (set_lpn_state v s) = do_not_init_again s"
  by (simp_all add: set_lpn_state_def)

lemma timer_calls_view [simp]:
  "calls (wiced_stop_timer s) = calls s @ [Call_wiced_stop_timer]"
  "do_not_init_again (wiced_stop_timer s) = do_not_init_again s"
  "calls (wiced_start_timer d s) = calls s @ [Call_wiced_start_timer d]"
  "do_not_init_again (wiced_start_timer d s) = do_not_init_again s"
  "calls (wiced_init_timer cb a ty s) = calls s @ [Call_wiced_init_timer cb a ty]"
  "do_not_init_again (wiced_init_timer cb a ty s) = do_not_init_again s"
  by (simp_all add: wiced_stop_timer_def wiced_start_timer_def wiced_init_timer_def)

lemma trace_start_reason_latch [simp]:
  "latch_view (trace_start_reason p e s) = latch_view s"
  "app_state (trace_start_reason p e s) = app_state s"
  by (simp_all add: trace_start_reason_def latch_view_def timer_creations_def
      sleep_registrations_def)

lemma set_scan_response_latch [simp]:
  "latch_view (set_scan_response s) = latch_view s"
  "app_state (set_scan_response s) = app_state s"
  by (simp_all add: set_scan_response_def Let_def latch_view_def timer_creations_def
      sleep_registrations_def)

lemma set_fw_version_latch [simp]:
  "latch_view (set_fw_version p s) = latch_view s"
  "app_state (set_fw_version p s) = app_state s"
  by (simp_all add: set_fw_version_def latch_view_def timer_creations_def
      sleep_registrations_def)

lemma settings_latch [simp]:
  "latch_view (s\<lparr>device_name := n, appearance := a\<rparr>) = latch_view s"
  by (simp add: latch_view_def timer_creations_def sleep_registrations_def)

lemma call_latch:
  "\<not> is_timer_creation c \<Longrightarrow> \<not> is_sleep_registration c \<Longrightarrow>
     latch_view (call c s) = latch_view s"
  by (simp add: latch_view_def timer_creations_def sleep_registrations_def)

lemma lpn_init_once_latch:
  "latch_view (lpn_init_once p e s) = (timer_creations s + 1, sleep_registrations s + 1, True)"
  by (simp add: lpn_init_once_def Let_def latch_view_def timer_creations_def
      sleep_registrations_def)

lemma mesh_app_init_latch:
  "latch_view (mesh_app_init p e prov s) =
     (if LOW_POWER_NODE p \<and> \<not> do_not_init_again s
      then (timer_creations s + 1, sleep_registrations s + 1, True)
      else latch_view s)"
proof -
  define s3 where "s3 = (let s2 = (trace_start_reason p e s)\<lparr>device_name := (if LOW_POWER_NODE p then ''Low Power LED'' else ''On/Off LED''),
                  appearance := APPEARANCE_GENERIC_TAG p\<rparr> in if \<not> prov then set_scan_response s2 else s2)"
  define s7 where "s7 = (let s4 = set_fw_version p s3;
          s5 = call (Call_led_control_init LED_CONTROL_TYPE_ONOFF) s4;
          s6 = (if NETWORK_FILTER_SERVER_SUPPORTED p \<and> prov
                then call Call_wiced_bt_mesh_network_filter_init s5 else s5)
       in call (Call_wiced_bt_mesh_model_power_onoff_server_init
                       MESH_LOW_POWER_LED_ELEMENT_INDEX Mesh_low_power_led_message_handler
                       TRANSITION_INTERVAL prov) s6)"
  have v3: "latch_view s3 = latch_view s" by (simp add: s3_def Let_def)
  have v7: "latch_view s7 = latch_view s"
    by (simp add: s7_def Let_def call_latch v3)
  have eq: "mesh_app_init p e prov s =
      (if LOW_POWER_NODE p \<and> \<not> do_not_init_again s7 then lpn_init_once p e s7 else s7)"
    by (simp add: mesh_app_init_def s7_def s3_def Let_def)
  show ?thesis using v7 by (simp add: eq lpn_init_once_latch) (auto simp add: latch_view_def)
qed

lemma init_first:
  assumes "LOW_POWER_NODE p" and "\<not> do_not_init_again s"
  shows "timer_creations (mesh_app_init p e prov s) = timer_creations s + 1"
    and "sleep_registrations (mesh_app_init p e prov s) = sleep_registrations s + 1"
    and "do_not_init_again (mesh_app_init p e prov s)"
  using assms mesh_app_init_latch [of p e prov s] by (simp_all add: latch_view_def)

lemma init_again:
  assumes "do_not_init_again s"
  shows "timer_creations (mesh_app_init p e prov s) = timer_creations s"
    and "sleep_registrations (mesh_app_init p e prov s) = sleep_registrations s"
    and "do_not_init_again (mesh_app_init p e prov s)"
  using assms mesh_app_init_latch [of p e prov s] by (simp_all add: latch_view_def)

lemma lpn_sleep_latch:
  "timer_creations (mesh_low_power_led_lpn_sleep p r d s) = timer_creations s"
  "sleep_registrations (mesh_low_power_led_lpn_sleep p r d s) = sleep_registrations s"
  "do_not_init_again (mesh_low_power_led_lpn_sleep p r d s) = do_not_init_again s"
  by (simp_all add: mesh_low_power_led_lpn_sleep_def Let_def timer_creations_def sleep_registrations_def)

lemma wakeup_latch:
  "timer_creations (wakeup_timer_cb s) = timer_creations s"
  "sleep_registrations (wakeup_timer_cb s) = sleep_registrations s"
  "do_not_init_again (wakeup_timer_cb s) = do_not_init_again s"
  by (simp_all add: wakeup_timer_cb_def Let_def timer_creations_def sleep_registrations_def)

lemma poll_latch:
  "timer_creations (snd (mesh_low_power_led_sleep_poll p ty s)) = timer_creations s"
  "sleep_registrations (snd (mesh_low_power_led_sleep_poll p ty s)) = sleep_registrations s"
  "do_not_init_again (snd (mesh_low_power_led_sleep_poll p ty s)) = do_not_init_again s"
  by (cases ty; simp add: mesh_low_power_led_sleep_poll_def Let_def timer_creations_def sleep_registrations_def)+

lemma message_latch:
  "timer_creations (mesh_low_power_led_message_handler p i ev st s) = timer_creations s"
  "sleep_registrations (mesh_low_power_led_message_handler p i ev st s) = sleep_registrations s"
  "do_not_init_again (mesh_low_power_led_message_handler p i ev st s) = do_not_init_again s"
  by (simp_all add: mesh_low_power_led_message_handler_def mesh_low_power_led_process_status_def timer_creations_def sleep_registrations_def)

lemma step_not_init:
  assumes "\<not> is_init en"
  shows "timer_creations (step p s en) = timer_creations s"
    and "sleep_registrations (step p s en) = sleep_registrations s"
    and "do_not_init_again (step p s en) = do_not_init_again s"
  using assms
  by (cases en; simp add: lpn_sleep_latch wakeup_latch poll_latch message_latch)+

lemma step_latched:
  assumes "do_not_init_again s"
  shows "timer_creations (step p s en) = timer_creations s
       \<and> sleep_registrations (step p s en) = sleep_registrations s
       \<and> do_not_init_again (step p s en)"
proof (cases "is_init en")
  case True
  then obtain e prov where "en = Mesh_app_init e prov" by (cases en) simp_all
  with assms show ?thesis by (simp add: init_again)
next
  case False
  with assms show ?thesis by (simp add: step_not_init)
qed

lemma run_latched:
  "do_not_init_again s \<Longrightarrow>
     timer_creations (run p s es) = timer_creations s
   \<and> sleep_registrations (run p s es) = sleep_registrations s
   \<and> do_not_init_again (run p s es)"
proof (induction es arbitrary: s)
  case Nil
  then show ?case by (simp add: run_def)
next
  case (Cons en es)
  from Cons.prems have st: "timer_creations (step p s en) = timer_creations s
       \<and> sleep_registrations (step p s en) = sleep_registrations s
       \<and> do_not_init_again (step p s en)" by (rule step_latched)
  with Cons.IH [of "step p s en"] show ?case by (simp add: run_def)
qed

lemma run_before_init:
  "list_all (\<lambda>en. \<not> is_init en) es \<Longrightarrow>
     timer_creations (run p s es) = timer_creations s
   \<and> sleep_registrations (run p s es) = sleep_registrations s
   \<and> do_not_init_again (run p s es) = do_not_init_again s"
proof (induction es arbitrary: s)
  case Nil
  then show ?case by (simp add: run_def)
next
  case (Cons en es)
  then have "\<not> is_init en" and rest: "list_all (\<lambda>en. \<not> is_init en) es" by simp_all
  then have "timer_creations (step p s en) = timer_creations s"
    "sleep_registrations (step p s en) = sleep_registrations s"
    "do_not_init_again (step p s en) = do_not_init_again s"
    by (simp_all add: step_not_init)
  with Cons.IH [OF rest, of "step p s en"] show ?case by (simp add: run_def)
qed

lemma run_append: "run p s (es @ es') = run p (run p s es) es'"
  by (simp add: run_def)


section \<open>The sleep scheduler\<close>

text \<open>
  C1, as the specification states it: for every \<open>max_sleep_duration\<close> at or above
  120000 ms, after \<open>schedule\<close> the idle flag is IDLE and the wake timer is not
  armed. The code does not do this. From the power-on state a request of
  180000 ms leaves \<open>lpn_state\<close> at NOT_IDLE, whether the platform accepts or
  rejects HID-off; and after a request of 50000 ms, which arms the timer, a
  request of 180000 ms leaves the timer armed.
\<close>

theorem lpn_sleep_hid_off_counterexample:
  "\<not> CYW20835B1 cyw20819_lpn \<and> (120000 :: uint32_t) \<le> 180000
   \<and> lpn_state (app_state (mesh_low_power_led_lpn_sleep cyw20819_lpn WICED_ERROR 180000 power_on))
       \<noteq> MESH_LPN_STATE_IDLE
   \<and> lpn_state (app_state (mesh_low_power_led_lpn_sleep cyw20819_lpn WICED_SUCCESS 180000 power_on))
       \<noteq> MESH_LPN_STATE_IDLE
   \<and> armed (lpn_wake_timer (app_state
        (mesh_low_power_led_lpn_sleep cyw20819_lpn WICED_ERROR 180000
           (mesh_low_power_led_lpn_sleep cyw20819_lpn WICED_SUCCESS 50000 power_on))))"
  by (simp add: cyw20819_lpn_flags lpn_sleep_hid_off lpn_sleep_epds)
     (simp add: power_on_def lpn_state_defs)

text \<open>
  C1, amended: for every \<open>max_sleep_duration\<close> at or above 120000 ms (build without
  \<open>CYW20835B1\<close>), \<open>schedule\<close> takes the deep-sleep path and bypasses the wake
  timer: it requests HID-off with that duration and the button pin as wake
  source, makes no timer call, and leaves \<open>lpn_state\<close> and the wake timer as they
  were before the call. It does not set the idle flag.
\<close>

theorem lpn_sleep_at_threshold_requests_hid_off:
  assumes "\<not> CYW20835B1 p" and "120000 \<le> d"
  shows "lpn_state (app_state (mesh_low_power_led_lpn_sleep p r d s)) = lpn_state (app_state s)
       \<and> lpn_wake_timer (app_state (mesh_low_power_led_lpn_sleep p r d s))
           = lpn_wake_timer (app_state s)
       \<and> calls_since s (mesh_low_power_led_lpn_sleep p r d s) =
           [Call_WICED_BT_TRACE
              (''Entering HID-OFF for max_sleep_duration: %d'' @ [CHR 0x0D, CHR ''\<newline>'']) [d],
            Call_wiced_sleep_enter_hid_off d (WICED_GPIO_PIN_BUTTON p) 1] @
           (if r = WICED_SUCCESS then []
            else [Call_WICED_BT_TRACE (''Entering HID-Off failed\<newline>'' @ [CHR 0x0D]) []])"
  using assms by (simp add: lpn_sleep_hid_off calls_since_def)

theorem lpn_sleep_at_threshold_requests_hid_off_witness:
  "\<not> CYW20835B1 cyw20819_lpn \<and> (120000 :: uint32_t) \<le> 180000
   \<and> lpn_state (app_state (mesh_low_power_led_lpn_sleep cyw20819_lpn WICED_SUCCESS 180000 power_on))
       = MESH_LPN_STATE_NOT_IDLE
   \<and> lpn_wake_timer (app_state (mesh_low_power_led_lpn_sleep cyw20819_lpn WICED_SUCCESS 180000 power_on))
       = \<lparr>armed = False, remaining_duration = 0\<rparr>
   \<and> calls_since power_on (mesh_low_power_led_lpn_sleep cyw20819_lpn WICED_SUCCESS 180000 power_on) =
       [Call_WICED_BT_TRACE
          (''Entering HID-OFF for max_sleep_duration: %d'' @ [CHR 0x0D, CHR ''\<newline>'']) [180000],
        Call_wiced_sleep_enter_hid_off 180000 0 1]"
proof -
  have h: "\<not> CYW20835B1 cyw20819_lpn" "(120000 :: uint32_t) \<le> 180000"
    by (simp_all add: cyw20819_lpn_def)
  have b: "WICED_GPIO_PIN_BUTTON cyw20819_lpn = 0"
    by (simp add: cyw20819_lpn_def)
  show ?thesis
    using h lpn_sleep_at_threshold_requests_hid_off [OF h, of WICED_SUCCESS power_on]
    by (simp add: b) (simp add: power_on_def lpn_state_defs)
qed

text \<open>
  C2: for every \<open>max_sleep_duration\<close> strictly below 120000 ms, in either build,
  after \<open>schedule\<close> the idle flag is IDLE and the wake timer is armed with
  exactly that duration: the call stops the timer, starts it with
  \<open>max_sleep_duration\<close> and traces, in this order. The \<open>CYW20835B1\<close> build
  skips the timer for the one duration \<open>WICED_SLEEP_MAX_TIME_TO_SLEEP\<close>, a constant
  of the SDK headers; the hypothesis says that the duration is not that sentinel.
\<close>

theorem lpn_sleep_below_threshold_arms_timer:
  assumes "d < 120000"
      and "CYW20835B1 p \<longrightarrow> d \<noteq> WICED_SLEEP_MAX_TIME_TO_SLEEP p"
  shows "lpn_state (app_state (mesh_low_power_led_lpn_sleep p r d s)) = MESH_LPN_STATE_IDLE
       \<and> lpn_wake_timer (app_state (mesh_low_power_led_lpn_sleep p r d s))
           = \<lparr>armed = True, remaining_duration = d\<rparr>
       \<and> calls_since s (mesh_low_power_led_lpn_sleep p r d s) =
           [Call_wiced_stop_timer, Call_wiced_start_timer d,
            Call_WICED_BT_TRACE
              ((if CYW20835B1 p then ''Get ready to go into SDS, duration=%d\<newline>''
                else ''Get ready to go into ePDS sleep, duration=%d\<newline>'') @ [CHR 0x0D]) [d]]"
proof (cases "CYW20835B1 p")
  case True
  with assms show ?thesis by (simp add: lpn_sleep_sds_arm calls_since_def)
next
  case False
  with assms show ?thesis by (simp add: lpn_sleep_epds calls_since_def)
qed

theorem lpn_sleep_below_threshold_arms_timer_witness:
  "(50000 :: uint32_t) < 120000
   \<and> \<not> CYW20835B1 cyw20819_lpn
   \<and> lpn_state (app_state (mesh_low_power_led_lpn_sleep cyw20819_lpn WICED_SUCCESS 50000 power_on))
       = MESH_LPN_STATE_IDLE
   \<and> lpn_wake_timer (app_state (mesh_low_power_led_lpn_sleep cyw20819_lpn WICED_SUCCESS 50000 power_on))
       = \<lparr>armed = True, remaining_duration = 50000\<rparr>
   \<and> CYW20835B1 cyw20835_lpn \<and> 50000 \<noteq> WICED_SLEEP_MAX_TIME_TO_SLEEP cyw20835_lpn
   \<and> lpn_state (app_state (mesh_low_power_led_lpn_sleep cyw20835_lpn WICED_SUCCESS 50000 power_on))
       = MESH_LPN_STATE_IDLE
   \<and> lpn_wake_timer (app_state (mesh_low_power_led_lpn_sleep cyw20835_lpn WICED_SUCCESS 50000 power_on))
       = \<lparr>armed = True, remaining_duration = 50000\<rparr>
   \<and> calls_since power_on (mesh_low_power_led_lpn_sleep cyw20835_lpn WICED_SUCCESS 50000 power_on) =
       [Call_wiced_stop_timer, Call_wiced_start_timer 50000,
        Call_WICED_BT_TRACE (''Get ready to go into SDS, duration=%d\<newline>'' @ [CHR 0x0D]) [50000]]"
proof -
  have d: "(50000 :: uint32_t) < 120000" by simp
  have a: "CYW20835B1 cyw20819_lpn \<longrightarrow> 50000 \<noteq> WICED_SLEEP_MAX_TIME_TO_SLEEP cyw20819_lpn"
    by (simp add: cyw20819_lpn_flags)
  have b: "CYW20835B1 cyw20835_lpn \<longrightarrow> 50000 \<noteq> WICED_SLEEP_MAX_TIME_TO_SLEEP cyw20835_lpn"
    by (simp add: cyw20835_lpn_flags)
  have f: "\<not> CYW20835B1 cyw20819_lpn" "CYW20835B1 cyw20835_lpn"
    "50000 \<noteq> WICED_SLEEP_MAX_TIME_TO_SLEEP cyw20835_lpn"
    by (simp_all add: cyw20819_lpn_flags cyw20835_lpn_flags)
  show ?thesis
    using d f lpn_sleep_below_threshold_arms_timer [OF d a, of WICED_SUCCESS power_on]
      lpn_sleep_below_threshold_arms_timer [OF d b, of WICED_SUCCESS power_on]
    by simp
qed

text \<open>
  C3, as the specification states it: when the platform rejects the deep-sleep
  request, the idle flag is IDLE after the call. The code leaves the flag as it
  was: the device after \<open>mesh_app_init\<close> is NOT_IDLE, and it is still NOT_IDLE
  after a rejected request of 120000 ms.
\<close>

theorem lpn_sleep_rejected_counterexample:
  "WICED_ERROR \<noteq> WICED_SUCCESS
   \<and> lpn_state (app_state (mesh_app_init cyw20819_lpn power_cycle True power_on))
       = MESH_LPN_STATE_NOT_IDLE
   \<and> lpn_state (app_state (mesh_low_power_led_lpn_sleep cyw20819_lpn WICED_ERROR 120000
        (mesh_app_init cyw20819_lpn power_cycle True power_on))) \<noteq> MESH_LPN_STATE_IDLE"
proof -
  have i: "app_state (mesh_app_init cyw20819_lpn power_cycle True power_on)
      = (app_state power_on)\<lparr>lpn_sleep_config :=
           lpn_sleep_config (app_state (mesh_app_init cyw20819_lpn power_cycle True power_on))\<rparr>"
    by (simp add: mesh_app_init_def Let_def lpn_init_once_def on_wake_timer_def
        wiced_init_timer_def power_on_def cyw20819_lpn_def)
  have "lpn_state (app_state (mesh_app_init cyw20819_lpn power_cycle True power_on))
      = lpn_state (app_state power_on)"
    by (subst i) simp
  then show ?thesis
    by (simp add: cyw20819_lpn_flags lpn_sleep_hid_off) (simp add: power_on_def lpn_state_defs)
qed

text \<open>
  C3, amended: when the platform rejects the deep-sleep request, the rejection is
  only logged and not retried (one request, followed by one trace), and nothing
  else changes: every global, the idle flag and the wake timer included, is as
  it was before the call.
\<close>

theorem lpn_sleep_rejected_only_logged:
  assumes "\<not> CYW20835B1 p" and "120000 \<le> d" and "r \<noteq> WICED_SUCCESS"
  shows "mesh_low_power_led_lpn_sleep p r d s =
     s\<lparr>calls := calls s @
          [Call_WICED_BT_TRACE
             (''Entering HID-OFF for max_sleep_duration: %d'' @ [CHR 0x0D, CHR ''\<newline>'']) [d],
           Call_wiced_sleep_enter_hid_off d (WICED_GPIO_PIN_BUTTON p) 1,
           Call_WICED_BT_TRACE (''Entering HID-Off failed\<newline>'' @ [CHR 0x0D]) []]\<rparr>"
  using assms by (simp add: lpn_sleep_hid_off)

theorem lpn_sleep_rejected_only_logged_witness:
  "\<not> CYW20835B1 cyw20819_lpn \<and> (120000 :: uint32_t) \<le> 200000 \<and> WICED_ERROR \<noteq> WICED_SUCCESS
   \<and> mesh_low_power_led_lpn_sleep cyw20819_lpn WICED_ERROR 200000 power_on =
     power_on\<lparr>calls :=
          [Call_WICED_BT_TRACE
             (''Entering HID-OFF for max_sleep_duration: %d'' @ [CHR 0x0D, CHR ''\<newline>'']) [200000],
           Call_wiced_sleep_enter_hid_off 200000 0 1,
           Call_WICED_BT_TRACE (''Entering HID-Off failed\<newline>'' @ [CHR 0x0D]) []]\<rparr>"
proof -
  have h: "\<not> CYW20835B1 cyw20819_lpn" "(120000 :: uint32_t) \<le> 200000"
    "WICED_ERROR \<noteq> WICED_SUCCESS"
    by (simp_all add: cyw20819_lpn_def)
  have b: "WICED_GPIO_PIN_BUTTON cyw20819_lpn = 0" "calls power_on = []"
    by (simp_all add: cyw20819_lpn_def power_on_def)
  show ?thesis
    using h lpn_sleep_rejected_only_logged [OF h, of power_on] by (simp add: b)
qed

text \<open>
  C4: a \<open>schedule\<close> call that arms the wake timer stops it first. In either
  build, for two consecutive calls with durations \<open>d1\<close> then \<open>d2\<close>, both below the
  threshold and with no expiry in between, the timer ends up armed with exactly
  \<open>d2\<close>; the second call issues the stop before the start, the stop leaves the
  timer disarmed, and nothing of \<open>d1\<close> remains in \<open>app_state\<close>: it is the same as
  after the call with \<open>d2\<close> alone. The hypothesis on \<open>d2\<close> is the one of C2. Last,
  for every build, duration and state: a call that starts the timer has stopped
  it immediately before.
\<close>

theorem lpn_sleep_rearm_cancels_old_deadline:
  assumes "d1 < 120000" and "d2 < 120000"
      and "CYW20835B1 p \<longrightarrow> d2 \<noteq> WICED_SLEEP_MAX_TIME_TO_SLEEP p"
  shows "lpn_wake_timer (app_state
           (mesh_low_power_led_lpn_sleep p r2 d2 (mesh_low_power_led_lpn_sleep p r1 d1 s)))
           = \<lparr>armed = True, remaining_duration = d2\<rparr>
       \<and> take 2 (calls_since (mesh_low_power_led_lpn_sleep p r1 d1 s)
            (mesh_low_power_led_lpn_sleep p r2 d2 (mesh_low_power_led_lpn_sleep p r1 d1 s)))
           = [Call_wiced_stop_timer, Call_wiced_start_timer d2]
       \<and> \<not> armed (lpn_wake_timer (app_state
             (wiced_stop_timer (mesh_low_power_led_lpn_sleep p r1 d1 s))))
       \<and> app_state (mesh_low_power_led_lpn_sleep p r2 d2 (mesh_low_power_led_lpn_sleep p r1 d1 s))
           = app_state (mesh_low_power_led_lpn_sleep p r2 d2 s)
       \<and> (Call_wiced_start_timer d' \<in> set (calls_since s0 (mesh_low_power_led_lpn_sleep p r d s0))
            \<longrightarrow> take 2 (calls_since s0 (mesh_low_power_led_lpn_sleep p r d s0))
                  = [Call_wiced_stop_timer, Call_wiced_start_timer d])"
proof -
  let ?s1 = "mesh_low_power_led_lpn_sleep p r1 d1 s"
  have stop: "\<not> armed (lpn_wake_timer (app_state (wiced_stop_timer ?s1)))"
    by (simp add: sdk_defs)
  have two: "lpn_wake_timer (app_state (mesh_low_power_led_lpn_sleep p r2 d2 ?s1))
           = \<lparr>armed = True, remaining_duration = d2\<rparr>
       \<and> take 2 (calls_since ?s1 (mesh_low_power_led_lpn_sleep p r2 d2 ?s1))
           = [Call_wiced_stop_timer, Call_wiced_start_timer d2]"
    using assms(2,3)
    by (cases "CYW20835B1 p") (simp_all add: lpn_sleep_sds_arm lpn_sleep_epds calls_since_def)
  have same: "app_state (mesh_low_power_led_lpn_sleep p r2 d2 ?s1)
           = app_state (mesh_low_power_led_lpn_sleep p r2 d2 s)"
  proof (cases "CYW20835B1 p")
    case True
    with assms(3) show ?thesis
      by (cases "d1 = WICED_SLEEP_MAX_TIME_TO_SLEEP p")
         (simp_all add: lpn_sleep_sds_arm lpn_sleep_sds_no_arm)
  next
    case False
    with assms(1,2) show ?thesis by (simp add: lpn_sleep_epds)
  qed
  show ?thesis using stop two same lpn_sleep_start_after_stop [of d' s0 p r d] by blast
qed

theorem lpn_sleep_rearm_cancels_old_deadline_witness:
  "(50000 :: uint32_t) < 120000 \<and> (30000 :: uint32_t) < 120000
   \<and> \<not> CYW20835B1 cyw20819_lpn
   \<and> lpn_wake_timer (app_state
        (mesh_low_power_led_lpn_sleep cyw20819_lpn WICED_SUCCESS 30000
           (mesh_low_power_led_lpn_sleep cyw20819_lpn WICED_SUCCESS 50000 power_on)))
       = \<lparr>armed = True, remaining_duration = 30000\<rparr>
   \<and> take 2 (calls_since (mesh_low_power_led_lpn_sleep cyw20819_lpn WICED_SUCCESS 50000 power_on)
        (mesh_low_power_led_lpn_sleep cyw20819_lpn WICED_SUCCESS 30000
           (mesh_low_power_led_lpn_sleep cyw20819_lpn WICED_SUCCESS 50000 power_on)))
       = [Call_wiced_stop_timer, Call_wiced_start_timer 30000]
   \<and> CYW20835B1 cyw20835_lpn \<and> 30000 \<noteq> WICED_SLEEP_MAX_TIME_TO_SLEEP cyw20835_lpn
   \<and> lpn_wake_timer (app_state
        (mesh_low_power_led_lpn_sleep cyw20835_lpn WICED_SUCCESS 30000
           (mesh_low_power_led_lpn_sleep cyw20835_lpn WICED_SUCCESS 50000 power_on)))
       = \<lparr>armed = True, remaining_duration = 30000\<rparr>
   \<and> take 2 (calls_since (mesh_low_power_led_lpn_sleep cyw20835_lpn WICED_SUCCESS 50000 power_on)
        (mesh_low_power_led_lpn_sleep cyw20835_lpn WICED_SUCCESS 30000
           (mesh_low_power_led_lpn_sleep cyw20835_lpn WICED_SUCCESS 50000 power_on)))
       = [Call_wiced_stop_timer, Call_wiced_start_timer 30000]
   \<and> Call_wiced_start_timer 200000
        \<in> set (calls_since power_on (mesh_low_power_led_lpn_sleep cyw20835_lpn WICED_SUCCESS 200000 power_on))
   \<and> take 2 (calls_since power_on (mesh_low_power_led_lpn_sleep cyw20835_lpn WICED_SUCCESS 200000 power_on))
       = [Call_wiced_stop_timer, Call_wiced_start_timer 200000]"
proof -
  have d: "(50000 :: uint32_t) < 120000" "(30000 :: uint32_t) < 120000" by simp_all
  have a: "CYW20835B1 cyw20819_lpn \<longrightarrow> 30000 \<noteq> WICED_SLEEP_MAX_TIME_TO_SLEEP cyw20819_lpn"
    by (simp add: cyw20819_lpn_flags)
  have b: "CYW20835B1 cyw20835_lpn \<longrightarrow> 30000 \<noteq> WICED_SLEEP_MAX_TIME_TO_SLEEP cyw20835_lpn"
    by (simp add: cyw20835_lpn_flags)
  have f: "\<not> CYW20835B1 cyw20819_lpn" "CYW20835B1 cyw20835_lpn"
    "30000 \<noteq> WICED_SLEEP_MAX_TIME_TO_SLEEP cyw20835_lpn"
    by (simp_all add: cyw20819_lpn_flags cyw20835_lpn_flags)
  have m: "Call_wiced_start_timer 200000
      \<in> set (calls_since power_on (mesh_low_power_led_lpn_sleep cyw20835_lpn WICED_SUCCESS 200000 power_on))"
    by (simp add: lpn_sleep_sds_arm cyw20835_lpn_flags calls_since_def)
  show ?thesis
    using d f m
      lpn_sleep_rearm_cancels_old_deadline [OF d a, of WICED_SUCCESS WICED_SUCCESS power_on]
      lpn_sleep_rearm_cancels_old_deadline [OF d b, of WICED_SUCCESS WICED_SUCCESS power_on
        200000 power_on WICED_SUCCESS 200000]
    by blast
qed

section \<open>The sleep permission oracle\<close>

text \<open>
  C5: in every state, hence in every reachable one, the TIME_TO_SLEEP query
  returns "not allowed" if and only if \<open>lpn_state\<close> is NOT_IDLE, and otherwise
  returns the maximum time to sleep. The two answers are different words of the
  SDK; that is the hypothesis.
\<close>

theorem sleep_poll_time_to_sleep:
  assumes "WICED_SLEEP_NOT_ALLOWED p \<noteq> WICED_SLEEP_MAX_TIME_TO_SLEEP p"
  shows "(fst (mesh_low_power_led_sleep_poll p WICED_SLEEP_POLL_TIME_TO_SLEEP s)
             = WICED_SLEEP_NOT_ALLOWED p
            \<longleftrightarrow> lpn_state (app_state s) = MESH_LPN_STATE_NOT_IDLE)
       \<and> fst (mesh_low_power_led_sleep_poll p WICED_SLEEP_POLL_TIME_TO_SLEEP s)
           = (if lpn_state (app_state s) = MESH_LPN_STATE_NOT_IDLE
              then WICED_SLEEP_NOT_ALLOWED p else WICED_SLEEP_MAX_TIME_TO_SLEEP p)"
  using assms by (simp add: mesh_low_power_led_sleep_poll_def)

theorem sleep_poll_time_to_sleep_witness:
  "WICED_SLEEP_NOT_ALLOWED cyw20819_lpn \<noteq> WICED_SLEEP_MAX_TIME_TO_SLEEP cyw20819_lpn
   \<and> fst (mesh_low_power_led_sleep_poll cyw20819_lpn WICED_SLEEP_POLL_TIME_TO_SLEEP power_on) = 0
   \<and> fst (mesh_low_power_led_sleep_poll cyw20819_lpn WICED_SLEEP_POLL_TIME_TO_SLEEP
        (mesh_low_power_led_lpn_sleep cyw20819_lpn WICED_SUCCESS 50000 power_on)) = 0xFFFFFFFF"
proof -
  have h: "WICED_SLEEP_NOT_ALLOWED cyw20819_lpn \<noteq> WICED_SLEEP_MAX_TIME_TO_SLEEP cyw20819_lpn"
    by (simp add: cyw20819_lpn_def)
  have v: "WICED_SLEEP_NOT_ALLOWED cyw20819_lpn = 0"
    "WICED_SLEEP_MAX_TIME_TO_SLEEP cyw20819_lpn = 0xFFFFFFFF"
    by (simp_all add: cyw20819_lpn_def)
  have s: "lpn_state (app_state power_on) = MESH_LPN_STATE_NOT_IDLE"
    "lpn_state (app_state (mesh_low_power_led_lpn_sleep cyw20819_lpn WICED_SUCCESS 50000 power_on))
       \<noteq> MESH_LPN_STATE_NOT_IDLE"
    by (simp_all add: cyw20819_lpn_flags lpn_sleep_epds) (simp_all add: power_on_def lpn_state_defs)
  show ?thesis
    using h s sleep_poll_time_to_sleep [OF h, of power_on]
      sleep_poll_time_to_sleep [OF h,
        of "mesh_low_power_led_lpn_sleep cyw20819_lpn WICED_SUCCESS 50000 power_on"]
    by (simp add: v)
qed

text \<open>
  C6, as the specification states it: when \<open>lpn_state\<close> is NOT_IDLE the
  SLEEP_PERMISSION query returns a "not specified / no answer" value. The code
  has no such value. At power-on, NOT_IDLE, the query returns
  \<open>WICED_SLEEP_NOT_ALLOWED\<close>: the refusal that \<open>ret\<close> is initialised with, the
  same word that the TIME_TO_SLEEP query returns there.
\<close>

theorem sleep_poll_permission_counterexample:
  "lpn_state (app_state power_on) = MESH_LPN_STATE_NOT_IDLE
   \<and> fst (mesh_low_power_led_sleep_poll cyw20819_lpn WICED_SLEEP_POLL_SLEEP_PERMISSION power_on)
       = WICED_SLEEP_NOT_ALLOWED cyw20819_lpn
   \<and> fst (mesh_low_power_led_sleep_poll cyw20819_lpn WICED_SLEEP_POLL_SLEEP_PERMISSION power_on)
       = fst (mesh_low_power_led_sleep_poll cyw20819_lpn WICED_SLEEP_POLL_TIME_TO_SLEEP power_on)"
  by (simp add: mesh_low_power_led_sleep_poll_def power_on_def lpn_state_defs)

text \<open>
  C6, amended: in every state the SLEEP_PERMISSION query returns an "allowed"
  answer if and only if \<open>lpn_state\<close> is IDLE; the variant is fixed by the build
  (with shutdown on \<open>CYW20835B1\<close>, without shutdown otherwise). When \<open>lpn_state\<close>
  is NOT_IDLE it returns "not allowed", the value \<open>ret\<close> starts with.
\<close>

theorem sleep_poll_sleep_permission:
  assumes "WICED_SLEEP_ALLOWED_WITHOUT_SHUTDOWN p \<noteq> WICED_SLEEP_NOT_ALLOWED p"
      and "WICED_SLEEP_ALLOWED_WITH_SHUTDOWN p \<noteq> WICED_SLEEP_NOT_ALLOWED p"
  shows "(fst (mesh_low_power_led_sleep_poll p WICED_SLEEP_POLL_SLEEP_PERMISSION s)
             \<in> {WICED_SLEEP_ALLOWED_WITHOUT_SHUTDOWN p, WICED_SLEEP_ALLOWED_WITH_SHUTDOWN p}
            \<longleftrightarrow> lpn_state (app_state s) = MESH_LPN_STATE_IDLE)
       \<and> fst (mesh_low_power_led_sleep_poll p WICED_SLEEP_POLL_SLEEP_PERMISSION s)
           = (if lpn_state (app_state s) = MESH_LPN_STATE_IDLE
              then (if CYW20835B1 p then WICED_SLEEP_ALLOWED_WITH_SHUTDOWN p
                    else WICED_SLEEP_ALLOWED_WITHOUT_SHUTDOWN p)
              else WICED_SLEEP_NOT_ALLOWED p)"
  using assms by (auto simp add: mesh_low_power_led_sleep_poll_def)

theorem sleep_poll_sleep_permission_witness:
  "WICED_SLEEP_ALLOWED_WITHOUT_SHUTDOWN cyw20819_lpn \<noteq> WICED_SLEEP_NOT_ALLOWED cyw20819_lpn
   \<and> WICED_SLEEP_ALLOWED_WITH_SHUTDOWN cyw20819_lpn \<noteq> WICED_SLEEP_NOT_ALLOWED cyw20819_lpn
   \<and> fst (mesh_low_power_led_sleep_poll cyw20819_lpn WICED_SLEEP_POLL_SLEEP_PERMISSION
        (mesh_low_power_led_lpn_sleep cyw20819_lpn WICED_SUCCESS 50000 power_on)) = 1
   \<and> fst (mesh_low_power_led_sleep_poll cyw20819_lpn WICED_SLEEP_POLL_SLEEP_PERMISSION
        (wakeup_timer_cb (mesh_low_power_led_lpn_sleep cyw20819_lpn WICED_SUCCESS 50000 power_on))) = 0"
proof -
  have h: "WICED_SLEEP_ALLOWED_WITHOUT_SHUTDOWN cyw20819_lpn \<noteq> WICED_SLEEP_NOT_ALLOWED cyw20819_lpn"
    "WICED_SLEEP_ALLOWED_WITH_SHUTDOWN cyw20819_lpn \<noteq> WICED_SLEEP_NOT_ALLOWED cyw20819_lpn"
    by (simp_all add: cyw20819_lpn_def)
  have v: "WICED_SLEEP_NOT_ALLOWED cyw20819_lpn = 0"
    "WICED_SLEEP_ALLOWED_WITHOUT_SHUTDOWN cyw20819_lpn = 1"
    by (simp_all add: cyw20819_lpn_def)
  have s: "lpn_state (app_state (mesh_low_power_led_lpn_sleep cyw20819_lpn WICED_SUCCESS 50000 power_on))
       = MESH_LPN_STATE_IDLE"
    "lpn_state (app_state (wakeup_timer_cb
        (mesh_low_power_led_lpn_sleep cyw20819_lpn WICED_SUCCESS 50000 power_on)))
       \<noteq> MESH_LPN_STATE_IDLE"
    by (simp_all add: cyw20819_lpn_flags lpn_sleep_epds wakeup_timer_cb_def Let_def sdk_defs
        lpn_state_defs)
  show ?thesis
    using h s cyw20819_lpn_flags
      sleep_poll_sleep_permission [OF h,
        of "mesh_low_power_led_lpn_sleep cyw20819_lpn WICED_SUCCESS 50000 power_on"]
      sleep_poll_sleep_permission [OF h,
        of "wakeup_timer_cb (mesh_low_power_led_lpn_sleep cyw20819_lpn WICED_SUCCESS 50000 power_on)"]
    by (simp add: v)
qed

text \<open>
  C7: the oracle does not change the device. For every query type and every
  state, the device after the call is the device before it except for the call
  log, to which the call adds nothing but traces; so \<open>app_state\<close> with the idle
  flag, the on/off fields and the wake timer is the same. The value returned
  depends on the state through \<open>lpn_state\<close> only.
\<close>

theorem sleep_poll_reads_only:
  "snd (mesh_low_power_led_sleep_poll p ty s)
     = s\<lparr>calls := calls (snd (mesh_low_power_led_sleep_poll p ty s))\<rparr>
   \<and> app_state (snd (mesh_low_power_led_sleep_poll p ty s)) = app_state s
   \<and> list_all is_trace (calls_since s (snd (mesh_low_power_led_sleep_poll p ty s)))
   \<and> (lpn_state (app_state s) = lpn_state (app_state s') \<longrightarrow>
        fst (mesh_low_power_led_sleep_poll p ty s) = fst (mesh_low_power_led_sleep_poll p ty s'))"
  by (cases ty) (simp_all add: mesh_low_power_led_sleep_poll_def sdk_defs calls_since_def)

theorem sleep_poll_reads_only_witness:
  "lpn_state (app_state power_on)
     = lpn_state (app_state (mesh_low_power_led_lpn_sleep cyw20819_lpn WICED_ERROR 180000 power_on))
   \<and> app_state (snd (mesh_low_power_led_sleep_poll cyw20819_lpn WICED_SLEEP_POLL_TIME_TO_SLEEP power_on))
       = app_state power_on
   \<and> fst (mesh_low_power_led_sleep_poll cyw20819_lpn WICED_SLEEP_POLL_TIME_TO_SLEEP power_on)
       = fst (mesh_low_power_led_sleep_poll cyw20819_lpn WICED_SLEEP_POLL_TIME_TO_SLEEP
           (mesh_low_power_led_lpn_sleep cyw20819_lpn WICED_ERROR 180000 power_on))"
proof -
  have h: "lpn_state (app_state power_on)
     = lpn_state (app_state (mesh_low_power_led_lpn_sleep cyw20819_lpn WICED_ERROR 180000 power_on))"
    by (simp add: cyw20819_lpn_flags lpn_sleep_hid_off)
  show ?thesis
    using h sleep_poll_reads_only [of cyw20819_lpn WICED_SLEEP_POLL_TIME_TO_SLEEP power_on
        "mesh_low_power_led_lpn_sleep cyw20819_lpn WICED_ERROR 180000 power_on"]
    by simp
qed

text \<open>
  C10: for a query type other than TIME_TO_SLEEP and SLEEP_PERMISSION the oracle
  returns "not allowed", the value \<open>ret\<close> is initialised with, and does nothing
  else.
\<close>

theorem sleep_poll_unknown_type_not_allowed:
  assumes "ty \<noteq> WICED_SLEEP_POLL_TIME_TO_SLEEP" and "ty \<noteq> WICED_SLEEP_POLL_SLEEP_PERMISSION"
  shows "mesh_low_power_led_sleep_poll p ty s = (WICED_SLEEP_NOT_ALLOWED p, s)"
  using assms by (cases ty) (simp_all add: mesh_low_power_led_sleep_poll_def)

theorem sleep_poll_unknown_type_not_allowed_witness:
  "WICED_SLEEP_POLL_OTHER 7 \<noteq> WICED_SLEEP_POLL_TIME_TO_SLEEP
   \<and> WICED_SLEEP_POLL_OTHER 7 \<noteq> WICED_SLEEP_POLL_SLEEP_PERMISSION
   \<and> mesh_low_power_led_sleep_poll cyw20819_lpn (WICED_SLEEP_POLL_OTHER 7)
        (mesh_low_power_led_lpn_sleep cyw20819_lpn WICED_SUCCESS 50000 power_on)
      = (0, mesh_low_power_led_lpn_sleep cyw20819_lpn WICED_SUCCESS 50000 power_on)"
proof -
  have h: "WICED_SLEEP_POLL_OTHER 7 \<noteq> WICED_SLEEP_POLL_TIME_TO_SLEEP"
    "WICED_SLEEP_POLL_OTHER 7 \<noteq> WICED_SLEEP_POLL_SLEEP_PERMISSION"
    by simp_all
  have v: "WICED_SLEEP_NOT_ALLOWED cyw20819_lpn = 0"
    by (simp add: cyw20819_lpn_def)
  show ?thesis
    using sleep_poll_unknown_type_not_allowed [OF h, of cyw20819_lpn
        "mesh_low_power_led_lpn_sleep cyw20819_lpn WICED_SUCCESS 50000 power_on"]
    by (simp add: v)
qed

section \<open>The wake timer callback\<close>

text \<open>
  C8: in every state \<open>wakeup_timer_cb\<close> sets \<open>lpn_state\<close> to NOT_IDLE and leaves the
  wake timer disarmed. Called twice in a row, it leaves NOT_IDLE both times, and
  the second call changes nothing in the device: it only repeats its trace and
  its stop call in the log.
\<close>

theorem wakeup_timer_cb_not_idle_idempotent:
  "lpn_state (app_state (wakeup_timer_cb s)) = MESH_LPN_STATE_NOT_IDLE
   \<and> \<not> armed (lpn_wake_timer (app_state (wakeup_timer_cb s)))
   \<and> calls_since s (wakeup_timer_cb s) =
       [Call_WICED_BT_TRACE ''ePDS wake up!!!\<newline>'' [], Call_wiced_stop_timer]
   \<and> lpn_state (app_state (wakeup_timer_cb (wakeup_timer_cb s))) = MESH_LPN_STATE_NOT_IDLE
   \<and> \<not> armed (lpn_wake_timer (app_state (wakeup_timer_cb (wakeup_timer_cb s))))
   \<and> wakeup_timer_cb (wakeup_timer_cb s) =
       (wakeup_timer_cb s)\<lparr>calls := calls (wakeup_timer_cb s) @
          [Call_WICED_BT_TRACE ''ePDS wake up!!!\<newline>'' [], Call_wiced_stop_timer]\<rparr>"
  by (simp add: wakeup_timer_cb_def Let_def sdk_defs calls_since_def)

theorem wakeup_timer_cb_not_idle_idempotent_witness:
  "lpn_state (app_state (wakeup_timer_cb
      (mesh_low_power_led_lpn_sleep cyw20819_lpn WICED_SUCCESS 50000 power_on)))
     = MESH_LPN_STATE_NOT_IDLE
   \<and> \<not> armed (lpn_wake_timer (app_state (wakeup_timer_cb
        (mesh_low_power_led_lpn_sleep cyw20819_lpn WICED_SUCCESS 50000 power_on))))
   \<and> lpn_state (app_state (wakeup_timer_cb (wakeup_timer_cb
        (mesh_low_power_led_lpn_sleep cyw20819_lpn WICED_SUCCESS 50000 power_on))))
       = MESH_LPN_STATE_NOT_IDLE"
  using wakeup_timer_cb_not_idle_idempotent
    [of "mesh_low_power_led_lpn_sleep cyw20819_lpn WICED_SUCCESS 50000 power_on"]
  by blast

section \<open>The initialisation latch\<close>

text \<open>
  C9: initialisation is guarded by the latch \<open>do_not_init_again\<close>. In a low power
  node build, starting with the latch clear, take any run in which
  \<open>mesh_app_init\<close> is called for the first time after the calls \<open>before\<close> and is
  followed by any calls \<open>after\<close>, further \<open>mesh_app_init\<close> calls included. The
  first call creates the wake timer and registers the sleep configuration, once
  each; no call after it does either again. Every function is total: a repeated
  initialisation is not an error.
\<close>

theorem init_once_latch:
  assumes "LOW_POWER_NODE p" and "\<not> do_not_init_again s"
      and "list_all (\<lambda>en. \<not> is_init en) before"
  shows "timer_creations (run p s before) = timer_creations s
       \<and> sleep_registrations (run p s before) = sleep_registrations s
       \<and> timer_creations (run p s (before @ [Mesh_app_init e prov])) = timer_creations s + 1
       \<and> sleep_registrations (run p s (before @ [Mesh_app_init e prov])) = sleep_registrations s + 1
       \<and> timer_creations (run p s (before @ Mesh_app_init e prov # after)) = timer_creations s + 1
       \<and> sleep_registrations (run p s (before @ Mesh_app_init e prov # after))
           = sleep_registrations s + 1"
proof -
  let ?s0 = "run p s before"
  let ?s1 = "mesh_app_init p e prov ?s0"
  from assms(3) have b: "timer_creations ?s0 = timer_creations s"
    "sleep_registrations ?s0 = sleep_registrations s" "\<not> do_not_init_again ?s0"
    using run_before_init [of before p s] assms(2) by simp_all
  from assms(1) b(3) have i: "timer_creations ?s1 = timer_creations ?s0 + 1"
    "sleep_registrations ?s1 = sleep_registrations ?s0 + 1" "do_not_init_again ?s1"
    by (rule init_first)+
  from i(3) have a: "timer_creations (run p ?s1 after) = timer_creations ?s1"
    "sleep_registrations (run p ?s1 after) = sleep_registrations ?s1"
    using run_latched [of ?s1 p after] by simp_all
  have r1: "run p s (before @ [Mesh_app_init e prov]) = ?s1"
    by (simp add: run_def)
  have r2: "run p s (before @ Mesh_app_init e prov # after) = run p ?s1 after"
    by (simp add: run_def)
  show ?thesis using b i a by (simp add: r1 r2)
qed

theorem init_once_latch_witness:
  "LOW_POWER_NODE cyw20819_lpn \<and> \<not> do_not_init_again power_on
   \<and> list_all (\<lambda>en. \<not> is_init en) [Lpn_sleep WICED_ERROR 180000]
   \<and> timer_creations (run cyw20819_lpn power_on
        ([Lpn_sleep WICED_ERROR 180000] @ Mesh_app_init power_cycle False #
           [Lpn_sleep WICED_SUCCESS 50000, Timer_expiry, Mesh_app_init power_cycle True])) = 1
   \<and> sleep_registrations (run cyw20819_lpn power_on
        ([Lpn_sleep WICED_ERROR 180000] @ Mesh_app_init power_cycle False #
           [Lpn_sleep WICED_SUCCESS 50000, Timer_expiry, Mesh_app_init power_cycle True])) = 1"
proof -
  have h: "LOW_POWER_NODE cyw20819_lpn" "\<not> do_not_init_again power_on"
    "list_all (\<lambda>en. \<not> is_init en) [Lpn_sleep WICED_ERROR 180000]"
    by (simp_all add: cyw20819_lpn_def power_on_def)
  have z: "timer_creations power_on = 0" "sleep_registrations power_on = 0"
    by (simp_all add: timer_creations_def sleep_registrations_def power_on_def)
  show ?thesis
    using h init_once_latch [OF h, of power_cycle False
        "[Lpn_sleep WICED_SUCCESS 50000, Timer_expiry, Mesh_app_init power_cycle True]"]
    by (simp add: z)
qed

end
